theory Spec2Isabelle
  imports Main "HOL-Library.Multiset"
begin

unbundle bit_operations_syntax

section \<open>The XRootD interfaces the plug-in is written against\<close>

text \<open>
  \<^verbatim>\<open>XrdCmsRedirLocal.cc\<close> is the only source file of the repository. Everything it calls
  belongs to the XRootD framework: the response object \<^verbatim>\<open>XrdOucErrInfo\<close>, the network
  address classes, the storage system \<^verbatim>\<open>XrdOss\<close>, the remote finder
  \<^verbatim>\<open>XrdCmsFinderRMT\<close>, the configuration stream \<^verbatim>\<open>XrdOucStream\<close> and the
  \<^verbatim>\<open>SFS_\<close> constants. \<^verbatim>\<open>Locate\<close> and \<^verbatim>\<open>Space\<close> take those operations and constants
  as arguments, and what is proved of them holds for every choice. Of the configuration
  stream, the section on configuration keeps what \<^verbatim>\<open>loadConfig\<close> observes.
\<close>

datatype error = NullPointer

text \<open>
  The operations and constants of the framework that \<^verbatim>\<open>Locate\<close> uses. \<open>'a\<close> is the type
  of network addresses (\<^verbatim>\<open>XrdNetAddrInfo\<close>), \<open>'r\<close> the type of response objects
  (\<^verbatim>\<open>XrdOucErrInfo\<close>). \<open>NetAddr_Set\<close> stands for \<^verbatim>\<open>XrdNetAddr target(-1); target.Set(text)\<close>:
  the address object that results from the text, whatever the text is. \<open>setErrInfo\<close>
  takes the text as an option because the source passes it a pointer that may be null.
\<close>

record ('a, 'r) XRootD =
  SFS_REDIRECT :: int
  SFS_O_RDONLY :: int
  NetAddr_Set :: "string \<Rightarrow> 'a"
  isPrivate :: "'a \<Rightarrow> bool"
  getErrText :: "'r \<Rightarrow> string"
  getUCap :: "'r \<Rightarrow> int"
  setErrInfo :: "int \<Rightarrow> string option \<Rightarrow> 'r \<Rightarrow> 'r"

text \<open>
  The environment of a request: \<^verbatim>\<open>EnvInfo->secEnv()->addrInfo\<close> is a chain of three
  pointers, each of which may be null.
\<close>

record 'a XrdSecEntity =
  addrInfo :: "'a option"

record 'a XrdOucEnv =
  secEnv :: "'a XrdSecEntity option"

text \<open>
  The remote finder. Its calls update the response object they are given by reference and
  return a status; the model returns both.
\<close>

record ('a, 'r) XrdCmsFinderRMT =
  Locate_RMT :: "'r \<Rightarrow> string \<Rightarrow> int \<Rightarrow> 'a XrdOucEnv option \<Rightarrow> int \<times> 'r"
  Space_RMT :: "'r \<Rightarrow> string \<Rightarrow> 'a XrdOucEnv option \<Rightarrow> int \<times> 'r"

text \<open>
  The storage system: \<^verbatim>\<open>Lfn2Pfn(path, buff, blen, rc)\<close> returns a pointer to the physical
  path (null when there is none) and sets \<^verbatim>\<open>rc\<close>.
\<close>

record XrdOss =
  Lfn2Pfn :: "string \<Rightarrow> nat \<Rightarrow> string option \<times> int"

section \<open>The plug-in object\<close>

text \<open>
  The class is declared in \<^verbatim>\<open>XrdCmsRedirLocal.hh\<close>; its members are those the source
  file reads and writes. The two collaborators are held by pointer.
\<close>

record ('a, 'r) XrdCmsRedirLocal =
  nativeCmsFinder :: "('a, 'r) XrdCmsFinderRMT option"
  theSS :: "XrdOss option"
  readOnlyredirect :: bool

text \<open>The constructor (lines 41-46).\<close>

definition XrdCmsRedirLocal_new ::
  "('a, 'r) XrdCmsFinderRMT \<Rightarrow> XrdOss option \<Rightarrow> ('a, 'r) XrdCmsRedirLocal" where
  "XrdCmsRedirLocal_new finder oss =
     \<lparr>nativeCmsFinder = Some finder, theSS = oss, readOnlyredirect = False\<rparr>"

section \<open>Locate\<close>

text \<open>\<^verbatim>\<open>EnvInfo->secEnv()->addrInfo\<close> (line 117): \<open>None\<close> when a pointer on the way is null.\<close>

definition clientAddrInfo :: "'a XrdOucEnv option \<Rightarrow> 'a option" where
  "clientAddrInfo EnvInfo =
     (case EnvInfo of
        None \<Rightarrow> None
      | Some env \<Rightarrow>
          (case secEnv env of
             None \<Rightarrow> None
           | Some sec \<Rightarrow> addrInfo sec))"

text \<open>
  Lines 136-147, the path once every check has passed: translate the path into a buffer
  of 4096 bytes, store code \<open>-1\<close> and the translated path in the response, and return
  \<^verbatim>\<open>SFS_REDIRECT\<close>. The value of \<^verbatim>\<open>rc\<close> is not read.
\<close>

definition redirect_local ::
  "('a, 'r) XRootD \<Rightarrow> ('a, 'r) XrdCmsRedirLocal \<Rightarrow> string \<Rightarrow> 'r \<Rightarrow> error + int \<times> 'r" where
  "redirect_local xrd this path Resp =
     (case theSS this of
        None \<Rightarrow> Inl NullPointer
      | Some oss \<Rightarrow>
          (let maxPathLength = 4096;
               (ppath, rc) = Lfn2Pfn oss path maxPathLength
           in Inr (SFS_REDIRECT xrd, setErrInfo xrd (- 1) ppath Resp)))"

text \<open>
  \<^verbatim>\<open>XrdCmsRedirLocal::Locate\<close> (lines 103-150). The result is the returned status together
  with the response object as the call leaves it, or \<open>NullPointer\<close> where the source
  dereferences a null pointer.
\<close>

definition Locate ::
  "('a, 'r) XRootD \<Rightarrow> ('a, 'r) XrdCmsRedirLocal \<Rightarrow> 'r \<Rightarrow> string \<Rightarrow> int \<Rightarrow>
     'a XrdOucEnv option \<Rightarrow> error + int \<times> 'r" where
  "Locate xrd this Resp path flags EnvInfo =
     (case nativeCmsFinder this of
        None \<Rightarrow> Inr (0, Resp)
      | Some finder \<Rightarrow>
          (let (rcode, Resp1) = Locate_RMT finder Resp path flags EnvInfo;
               target = NetAddr_Set xrd (getErrText xrd Resp1)
           in if \<not> isPrivate xrd target then Inr (rcode, Resp1)
              else
                (case clientAddrInfo EnvInfo of
                   None \<Rightarrow> Inl NullPointer
                 | Some client \<Rightarrow>
                     if \<not> isPrivate xrd client then Inr (rcode, Resp1)
                     else
                       (let pversion = getUCap xrd Resp1 AND 0x0000ffff
                        in if pversion < 784 then Inr (rcode, Resp1)
                           else if flags > 0x200 then Inr (rcode, Resp1)
                           else if readOnlyredirect this \<and> \<not> (flags = SFS_O_RDONLY xrd)
                             then Inr (rcode, Resp1)
                           else redirect_local xrd this path Resp1))))"

text \<open>\<^verbatim>\<open>XrdCmsRedirLocal::Space\<close> (lines 156-161).\<close>

definition Space ::
  "('a, 'r) XrdCmsRedirLocal \<Rightarrow> 'r \<Rightarrow> string \<Rightarrow> 'a XrdOucEnv option \<Rightarrow> int \<times> 'r" where
  "Space this Resp path EnvInfo =
     (case nativeCmsFinder this of
        Some finder \<Rightarrow> Space_RMT finder Resp path EnvInfo
      | None \<Rightarrow> (0, Resp))"

section \<open>Configuration\<close>

text \<open>
  The configuration stream. \<^verbatim>\<open>XrdOucStream\<close> is framework code; the model keeps what
  \<^verbatim>\<open>loadConfig\<close> observes of it: a file is a list of lines, a line the list of its words,
  and the stream holds the words left on the current line and the lines not yet read.
\<close>

record XrdOucStream =
  xline :: "string list"
  flines :: "string list list"

text \<open>\<^verbatim>\<open>tolower\<close> of the C library, on bytes, in the C locale.\<close>

definition tolower :: "char \<Rightarrow> char" where
  "tolower c =
     (let n = (of_char c :: nat)
      in if 65 \<le> n \<and> n \<le> 90 then char_of (n + 32) else c)"

definition lowcase_word :: "bool \<Rightarrow> string \<Rightarrow> string" where
  "lowcase_word lowcase w = (if lowcase then map tolower w else w)"

text \<open>The next line that holds a word: its first word, its other words, the lines after it.\<close>

fun next_words :: "string list list \<Rightarrow> (string \<times> string list \<times> string list list) option" where
  "next_words [] = None"
| "next_words ([] # ls) = next_words ls"
| "next_words ((w # ws) # ls) = Some (w, ws, ls)"

text \<open>
  \<^verbatim>\<open>GetFirstWord(lowcase)\<close>: drops what is left of the current line and returns the first
  word of the next line that has one, in lower case when \<open>lowcase\<close> is set; null at the
  end of the file.
\<close>

definition GetFirstWord :: "bool \<Rightarrow> XrdOucStream \<Rightarrow> string option \<times> XrdOucStream" where
  "GetFirstWord lowcase Config =
     (case next_words (flines Config) of
        None \<Rightarrow> (None, \<lparr>xline = [], flines = []\<rparr>)
      | Some (w, ws, ls) \<Rightarrow> (Some (lowcase_word lowcase w), \<lparr>xline = ws, flines = ls\<rparr>))"

text \<open>\<^verbatim>\<open>GetWord(lowcase)\<close>: the next word of the current line; null at its end.\<close>

definition GetWord :: "bool \<Rightarrow> XrdOucStream \<Rightarrow> string option \<times> XrdOucStream" where
  "GetWord lowcase Config =
     (case xline Config of
        [] \<Rightarrow> (None, Config)
      | w # ws \<Rightarrow> (Some (lowcase_word lowcase w), Config\<lparr>xline := ws\<rparr>))"

text \<open>
  \<^verbatim>\<open>std::string::find\<close>: the first position at which \<open>pat\<close> occurs in \<open>s\<close>, \<open>None\<close> for
  \<^verbatim>\<open>npos\<close>. \<open>find_from\<close> carries the position reached.
\<close>

fun find_from :: "nat \<Rightarrow> string \<Rightarrow> string \<Rightarrow> nat option" where
  "find_from i pat [] = (if pat = [] then Some i else None)"
| "find_from i pat (c # cs) =
     (if take (length pat) (c # cs) = pat then Some i else find_from (Suc i) pat cs)"

definition find_str :: "string \<Rightarrow> string \<Rightarrow> nat option" where
  "find_str s pat = find_from 0 pat s"

text \<open>
  The loop of \<^verbatim>\<open>loadConfig\<close> (lines 71-84), on the stream and the current value of
  \<^verbatim>\<open>readOnlyredirect\<close>. \<^verbatim>\<open>std::string(Config.GetWord(true))\<close> on a null pointer is the
  error \<open>NullPointer\<close>.
\<close>

function loadConfig_loop :: "XrdOucStream \<Rightarrow> bool \<Rightarrow> error + bool" where
  "loadConfig_loop Config ro =
     (case GetFirstWord True Config of
        (None, Config1) \<Rightarrow> Inr ro
      | (Some word, Config1) \<Rightarrow>
          if word = ''XrdCmsRedirLocal.readonlyredirect'' then
            (case GetWord True Config1 of
               (None, Config2) \<Rightarrow> Inl NullPointer
             | (Some readWord, Config2) \<Rightarrow>
                 if find_str readWord ''true'' \<noteq> None
                 then loadConfig_loop Config2 True
                 else loadConfig_loop Config2 False)
          else loadConfig_loop Config1 ro)"
  by pat_completeness auto

lemma next_words_shorter:
  "next_words ls = Some (w, ws, ls') \<Longrightarrow> length ls' < length ls"
  by (induction ls rule: next_words.induct) auto

lemma GetFirstWord_shorter:
  "GetFirstWord lowcase Config = (Some word, Config1) \<Longrightarrow>
     length (flines Config1) < length (flines Config)"
  by (auto simp: GetFirstWord_def split: option.splits dest: next_words_shorter)

lemma GetWord_flines:
  "GetWord lowcase Config = (r, Config1) \<Longrightarrow> flines Config1 = flines Config"
  by (auto simp: GetWord_def split: list.splits)

termination loadConfig_loop
proof (relation "measure (\<lambda>(Config, ro). length (flines Config))")
  show "wf (measure (\<lambda>(Config, ro). length (flines Config)))"
    by simp
next
  fix Config and ro :: bool and x Config1 word y Config2 readWord
  assume a: "(x, Config1) = GetFirstWord True Config" "x = Some word"
    and b: "(y, Config2) = GetWord True Config1"
  from a have "length (flines Config1) < length (flines Config)"
    using GetFirstWord_shorter [of True Config word Config1] by simp
  moreover from b have "flines Config2 = flines Config1"
    using GetWord_flines [of True Config1 y Config2] by simp
  ultimately show "((Config2, True), (Config, ro)) \<in> measure (\<lambda>(Config, ro). length (flines Config))"
    and "((Config2, False), (Config, ro)) \<in> measure (\<lambda>(Config, ro). length (flines Config))"
    by simp_all
next
  fix Config and ro :: bool and x Config1 word
  assume a: "(x, Config1) = GetFirstWord True Config" "x = Some word"
  from a have "length (flines Config1) < length (flines Config)"
    using GetFirstWord_shorter [of True Config word Config1] by simp
  then show "((Config1, ro), (Config, ro)) \<in> measure (\<lambda>(Config, ro). length (flines Config))"
    by simp
qed

declare loadConfig_loop.simps [simp del]

text \<open>
  \<^verbatim>\<open>XrdCmsRedirLocal::loadConfig\<close> (lines 62-86). \<open>fs\<close> is the file system: the content
  of the file a name opens, \<open>None\<close> when \<^verbatim>\<open>open\<close> fails.
\<close>

definition loadConfig ::
  "(string \<Rightarrow> string list list option) \<Rightarrow> ('a, 'r) XrdCmsRedirLocal \<Rightarrow> string \<Rightarrow>
     error + ('a, 'r) XrdCmsRedirLocal" where
  "loadConfig fs this filename =
     (case fs filename of
        None \<Rightarrow> Inr this
      | Some content \<Rightarrow>
          (case loadConfig_loop \<lparr>xline = [], flines = content\<rparr> (readOnlyredirect this) of
             Inl e \<Rightarrow> Inl e
           | Inr ro \<Rightarrow> Inr (this\<lparr>readOnlyredirect := ro\<rparr>)))"

section \<open>The checks of Locate as a list\<close>

text \<open>
  The five checks of lines 113-134, named, each with the condition under which
  \<^verbatim>\<open>Locate\<close> returns the finder's answer. \<open>client\<close> is the client's address and
  \<open>Resp1\<close> the response as the finder left it.
\<close>

datatype gate = TargetLocality | ClientLocality | Capability | FlagRange | Policy

fun gate_fails ::
  "('a, 'r) XRootD \<Rightarrow> ('a, 'r) XrdCmsRedirLocal \<Rightarrow> int \<Rightarrow> 'a \<Rightarrow> 'r \<Rightarrow> gate \<Rightarrow> bool" where
  "gate_fails xrd this flags client Resp1 TargetLocality =
     (\<not> isPrivate xrd (NetAddr_Set xrd (getErrText xrd Resp1)))"
| "gate_fails xrd this flags client Resp1 ClientLocality =
     (\<not> isPrivate xrd client)"
| "gate_fails xrd this flags client Resp1 Capability =
     (getUCap xrd Resp1 AND 0x0000ffff < 784)"
| "gate_fails xrd this flags client Resp1 FlagRange =
     (flags > 0x200)"
| "gate_fails xrd this flags client Resp1 Policy =
     (readOnlyredirect this \<and> \<not> (flags = SFS_O_RDONLY xrd))"

text \<open>The order in which \<^verbatim>\<open>Locate\<close> makes them.\<close>

definition Locate_gates :: "gate list" where
  "Locate_gates = [TargetLocality, ClientLocality, Capability, FlagRange, Policy]"

text \<open>
  Each check as the source makes it, on the environment the call was given: its value is
  whether it fails. The check of the client reads through the three pointers of line 117
  and is \<open>NullPointer\<close> when one of them is null; the others read no pointer.
\<close>

fun gate_check ::
  "('a, 'r) XRootD \<Rightarrow> ('a, 'r) XrdCmsRedirLocal \<Rightarrow> int \<Rightarrow> 'a XrdOucEnv option \<Rightarrow> 'r \<Rightarrow> gate \<Rightarrow>
     error + bool" where
  "gate_check xrd this flags EnvInfo Resp1 TargetLocality =
     Inr (\<not> isPrivate xrd (NetAddr_Set xrd (getErrText xrd Resp1)))"
| "gate_check xrd this flags EnvInfo Resp1 ClientLocality =
     (case clientAddrInfo EnvInfo of
        None \<Rightarrow> Inl NullPointer
      | Some client \<Rightarrow> Inr (\<not> isPrivate xrd client))"
| "gate_check xrd this flags EnvInfo Resp1 Capability =
     Inr (getUCap xrd Resp1 AND 0x0000ffff < 784)"
| "gate_check xrd this flags EnvInfo Resp1 FlagRange =
     Inr (flags > 0x200)"
| "gate_check xrd this flags EnvInfo Resp1 Policy =
     Inr (readOnlyredirect this \<and> \<not> (flags = SFS_O_RDONLY xrd))"

text \<open>
  The specification's reading of the algorithm, for any order of the checks: they are
  made one after the other, the first that fails gives the answer \<open>remote\<close>, and
  \<open>local\<close> is the answer when none does. A check that dereferences a null pointer ends
  the evaluation there.
\<close>

fun decide_in_order ::
  "gate list \<Rightarrow> (gate \<Rightarrow> error + bool) \<Rightarrow> error + 'd \<Rightarrow> error + 'd \<Rightarrow> error + 'd" where
  "decide_in_order [] check remote local = local"
| "decide_in_order (g # gs) check remote local =
     (case check g of
        Inl e \<Rightarrow> Inl e
      | Inr fails \<Rightarrow> if fails then remote else decide_in_order gs check remote local)"

section \<open>A concrete installation\<close>

text \<open>
  An instance of the framework on which the theorems are exercised: addresses are their
  texts and the private ones are those of the network \<open>10.0.0.0/8\<close>; a response holds a
  code, a text and the client's capabilities; a null text is stored as the empty text.
\<close>

record ErrInfo0 =
  ei_code :: int
  ei_text :: string
  ei_ucap :: int

definition xrd0 :: "(string, ErrInfo0) XRootD" where
  "xrd0 =
     \<lparr>SFS_REDIRECT = - 256,
      SFS_O_RDONLY = 0,
      NetAddr_Set = (\<lambda>text. text),
      isPrivate = (\<lambda>addr. take 3 addr = ''10.''),
      getErrText = ei_text,
      getUCap = ei_ucap,
      setErrInfo = (\<lambda>code emsg Resp.
        Resp\<lparr>ei_code := code, ei_text := (case emsg of None \<Rightarrow> [] | Some m \<Rightarrow> m)\<rparr>)\<rparr>"

text \<open>A finder that answers every call with the given status and response.\<close>

definition finder0 :: "int \<Rightarrow> ErrInfo0 \<Rightarrow> (string, ErrInfo0) XrdCmsFinderRMT" where
  "finder0 rcode answer =
     \<lparr>Locate_RMT = (\<lambda>Resp path flags EnvInfo. (rcode, answer)),
      Space_RMT = (\<lambda>Resp path EnvInfo. (rcode, answer))\<rparr>"

text \<open>
  A storage system that exports \<open>/data\<close> under the local root \<open>/local\<close> and has no
  physical path for anything else (\<open>rc = -2\<close>).
\<close>

definition oss0 :: XrdOss where
  "oss0 =
     \<lparr>Lfn2Pfn = (\<lambda>path blen.
        if take 5 path = ''/data'' \<and> length path + 6 < blen
        then (Some (''/local'' @ path), 0) else (None, - 2))\<rparr>"

definition env0 :: "string \<Rightarrow> string XrdOucEnv option" where
  "env0 client = Some \<lparr>secEnv = Some \<lparr>addrInfo = Some client\<rparr>\<rparr>"

definition resp0 :: ErrInfo0 where
  "resp0 = \<lparr>ei_code = 0, ei_text = [], ei_ucap = 1808\<rparr>"

text \<open>The finder's answer for a file on the node \<open>host\<close>, to a client of capability \<open>ucap\<close>.\<close>

definition located :: "string \<Rightarrow> int \<Rightarrow> ErrInfo0" where
  "located host ucap = \<lparr>ei_code = 1094, ei_text = host, ei_ucap = ucap\<rparr>"

text \<open>
  The plug-in as constructed over that finder and storage system, with
  \<^verbatim>\<open>readOnlyredirect\<close> as configuration would leave it.
\<close>

definition plugin0 :: "int \<Rightarrow> ErrInfo0 \<Rightarrow> bool \<Rightarrow> (string, ErrInfo0) XrdCmsRedirLocal" where
  "plugin0 rcode answer ro =
     (XrdCmsRedirLocal_new (finder0 rcode answer) (Some oss0))\<lparr>readOnlyredirect := ro\<rparr>"

lemmas sample_defs =
  plugin0_def XrdCmsRedirLocal_new_def finder0_def oss0_def env0_def resp0_def
  located_def xrd0_def clientAddrInfo_def

section \<open>What Locate computes\<close>

text \<open>
  With a finder and a client address, \<^verbatim>\<open>Locate\<close> is one conditional over the five
  checks: the finder's answer when one of them fails, the local redirect otherwise.
\<close>

lemma Locate_finder:
  assumes "nativeCmsFinder this = Some finder"
    and "Locate_RMT finder Resp path flags EnvInfo = (rcode, Resp1)"
    and "clientAddrInfo EnvInfo = Some client"
  shows "Locate xrd this Resp path flags EnvInfo =
     (if gate_fails xrd this flags client Resp1 TargetLocality
        \<or> gate_fails xrd this flags client Resp1 ClientLocality
        \<or> gate_fails xrd this flags client Resp1 Capability
        \<or> gate_fails xrd this flags client Resp1 FlagRange
        \<or> gate_fails xrd this flags client Resp1 Policy
      then Inr (rcode, Resp1) else redirect_local xrd this path Resp1)"
  using assms by (auto simp: Locate_def Let_def)

text \<open>The check of the target comes before the client's address is read.\<close>

lemma Locate_target_public:
  assumes "nativeCmsFinder this = Some finder"
    and "Locate_RMT finder Resp path flags EnvInfo = (rcode, Resp1)"
    and "\<not> isPrivate xrd (NetAddr_Set xrd (getErrText xrd Resp1))"
  shows "Locate xrd this Resp path flags EnvInfo = Inr (rcode, Resp1)"
  using assms by (simp add: Locate_def Let_def)

lemma Locate_gates_iff:
  "(\<exists>g \<in> set Locate_gates. fails g) \<longleftrightarrow>
     fails TargetLocality \<or> fails ClientLocality \<or> fails Capability \<or> fails FlagRange
       \<or> fails Policy"
  by (simp add: Locate_gates_def)

text \<open>The mask \<^verbatim>\<open>0x0000ffff\<close> keeps the low 16 bits.\<close>

lemma low16: "(x::int) AND 0x0000ffff = take_bit 16 x"
  by (simp add: take_bit_eq_mask mask_eq_exp_minus_1)



text \<open>
  In the order of the source the checks are \<^verbatim>\<open>Locate\<close>, on every request, with or
  without a client address.
\<close>

lemma decide_in_order_Locate_gates:
  assumes "nativeCmsFinder this = Some finder"
    and "Locate_RMT finder Resp path flags EnvInfo = (rcode, Resp1)"
  shows "decide_in_order Locate_gates (gate_check xrd this flags EnvInfo Resp1)
           (Inr (rcode, Resp1)) (redirect_local xrd this path Resp1)
         = Locate xrd this Resp path flags EnvInfo"
  using assms by (simp add: Locate_def Locate_gates_def Let_def split: option.splits)

section \<open>What loadConfig computes\<close>

text \<open>
  A word read in lower case has no capital letter, and the name the source compares it
  with starts with one.
\<close>

lemma tolower_not_X: "tolower c \<noteq> CHR ''X''"
proof
  assume "tolower c = CHR ''X''"
  then have "(of_char (tolower c) :: nat) = 88"
    by simp
  then show False
    by (auto simp: tolower_def Let_def split: if_splits)
qed

lemma GetFirstWord_no_directive:
  "GetFirstWord True Config = (Some word, Config1) \<Longrightarrow>
     word \<noteq> ''XrdCmsRedirLocal.readonlyredirect''"
  using tolower_not_X
  by (auto simp: GetFirstWord_def lowcase_word_def split: option.splits)

text \<open>So the loop never reaches the assignments of lines 78 and 81.\<close>

lemma loadConfig_loop_noop: "loadConfig_loop Config ro = Inr ro"
proof (induction Config ro rule: loadConfig_loop.induct)
  case (1 Config ro)
  show ?case
  proof (cases "GetFirstWord True Config")
    case (Pair x Config1)
    show ?thesis
    proof (cases x)
      case None
      with Pair show ?thesis
        by (subst loadConfig_loop.simps) simp
    next
      case (Some word)
      have neq: "word \<noteq> ''XrdCmsRedirLocal.readonlyredirect''"
        using Pair Some by (auto dest: GetFirstWord_no_directive)
      have "loadConfig_loop Config1 ro = Inr ro"
        using Pair Some neq by (intro "1.IH"(3)) simp_all
      with Pair Some neq show ?thesis
        by (subst loadConfig_loop.simps) simp
    qed
  qed
qed

lemma loadConfig_unchanged: "loadConfig fs this filename = Inr this"
  by (simp add: loadConfig_def loadConfig_loop_noop split: option.splits)

text \<open>
  Once every check has passed the answer is a local redirect, whatever the translation
  returned: neither \<^verbatim>\<open>rc\<close> nor a null path is looked at.
\<close>

lemma redirect_local_ignores_rc:
  "theSS this = Some oss \<Longrightarrow> Lfn2Pfn oss path 4096 = (ppath, rc) \<Longrightarrow>
     redirect_local xrd this path Resp = Inr (SFS_REDIRECT xrd, setErrInfo xrd (- 1) ppath Resp)"
  by (simp add: redirect_local_def)

section \<open>The claims\<close>

subsection \<open>C1: a failed locate\<close>

text \<open>
  C1, as amended. \<^verbatim>\<open>Locate\<close> never reads the status the finder returned, so a status that
  reports a failure is no check of its own. What holds: for every status \<open>rcode\<close> of the
  finder, a failure included, if at least one of the five checks fails (target not private,
  client not private, low 16 bits of the capability below 784, flags above \<open>0x200\<close>,
  read-only policy with other flags), \<^verbatim>\<open>Locate\<close> returns that status and leaves the
  response as the finder left it.
\<close>

theorem Locate_failed_gate_keeps_status:
  assumes "nativeCmsFinder this = Some finder"
    and "Locate_RMT finder Resp path flags EnvInfo = (rcode, Resp1)"
    and "clientAddrInfo EnvInfo = Some client"
    and "\<exists>g \<in> set Locate_gates. gate_fails xrd this flags client Resp1 g"
  shows "Locate xrd this Resp path flags EnvInfo = Inr (rcode, Resp1)"
  using assms(4) Locate_finder [OF assms(1-3), of xrd]
  by (simp only: Locate_gates_iff if_True)

text \<open>A finder that fails with status \<open>-1\<close> and names a public host.\<close>

theorem Locate_failed_gate_keeps_status_witness:
  "gate_fails xrd0 (plugin0 (- 1) (located ''203.0.113.7'' 1808) False) 0 ''10.0.0.5''
      (located ''203.0.113.7'' 1808) TargetLocality
   \<and> Locate xrd0 (plugin0 (- 1) (located ''203.0.113.7'' 1808) False) resp0 ''/data/f'' 0
         (env0 ''10.0.0.5'')
       = Inr (- 1, located ''203.0.113.7'' 1808)"
  using Locate_failed_gate_keeps_status
    [of "plugin0 (- 1) (located ''203.0.113.7'' 1808) False"
      "finder0 (- 1) (located ''203.0.113.7'' 1808)" resp0 "''/data/f''" 0 "env0 ''10.0.0.5''"
      "- 1" "located ''203.0.113.7'' 1808" "''10.0.0.5''" xrd0]
  by (simp add: sample_defs Locate_gates_def)

text \<open>
  C1 as stated fails: the finder returns the status \<open>-1\<close> with a response whose text is
  a private address, the client is private, the protocol is recent and the open is
  read-only. \<^verbatim>\<open>Locate\<close> answers \<^verbatim>\<open>SFS_REDIRECT\<close> with the local path: the status
  \<open>-1\<close> is gone and the response is rewritten.
\<close>

theorem Locate_error_status_counterexample:
  "Locate_RMT (finder0 (- 1) (located ''10.0.0.9'' 1808)) resp0 ''/data/f'' 0 (env0 ''10.0.0.5'')
     = (- 1, \<lparr>ei_code = 1094, ei_text = ''10.0.0.9'', ei_ucap = 1808\<rparr>)
   \<and> Locate xrd0 (plugin0 (- 1) (located ''10.0.0.9'' 1808) False) resp0 ''/data/f'' 0
         (env0 ''10.0.0.5'')
       = Inr (- 256, \<lparr>ei_code = - 1, ei_text = ''/local/data/f'', ei_ucap = 1808\<rparr>)"
  by (simp add: sample_defs Locate_def redirect_local_def)

subsection \<open>C2: a failed translation\<close>

text \<open>
  C2 asks that a request which passes every check, and whose path the storage system
  cannot translate, gets the finder's answer. The source does not do that. At the path
  \<open>/scratch/f\<close>, for which \<open>Lfn2Pfn\<close> returns a null pointer and \<open>rc = -2\<close>,
  \<^verbatim>\<open>Locate\<close> still answers with a local redirect, and the path it carries is empty.
\<close>

theorem Locate_translation_failure:
  "Lfn2Pfn oss0 ''/scratch/f'' 4096 = (None, - 2)
   \<and> Locate xrd0 (plugin0 (- 256) (located ''10.0.0.9'' 1808) False) resp0 ''/scratch/f'' 0
         (env0 ''10.0.0.5'')
       = Inr (- 256, \<lparr>ei_code = - 1, ei_text = [], ei_ucap = 1808\<rparr>)"
  by (simp add: sample_defs Locate_def redirect_local_def)

subsection \<open>C3: the configuration directive\<close>

text \<open>
  C3 asks that the directive \<open>XrdCmsRedirLocal.readonlyredirect true\<close> sets
  \<^verbatim>\<open>readOnlyredirect\<close>. The source reads the word in lower case and compares it with a
  name written with capitals, so the comparison never succeeds
  (\<open>loadConfig_unchanged\<close>): on a file that holds exactly that directive,
  \<^verbatim>\<open>loadConfig\<close> leaves the plug-in as the constructor made it, with the flag off.
\<close>

theorem loadConfig_directive_true_ignored:
  "loadConfig (\<lambda>filename. Some [[''XrdCmsRedirLocal.readonlyredirect'', ''true'']])
      (plugin0 (- 256) (located ''10.0.0.9'' 1808) False) ''xrootd.cf''
     = Inr (plugin0 (- 256) (located ''10.0.0.9'' 1808) False)
   \<and> \<not> readOnlyredirect (plugin0 (- 256) (located ''10.0.0.9'' 1808) False)"
  by (simp add: loadConfig_unchanged) (simp add: plugin0_def)

subsection \<open>C4: a public target or a public client\<close>

text \<open>
  C4. When the address built from the finder's answer is not private, or the client's
  address is not private, \<^verbatim>\<open>Locate\<close> returns the finder's status and the response
  exactly as the finder left it. With a public target the client's address is not even
  read.
\<close>

theorem Locate_public_address:
  assumes "nativeCmsFinder this = Some finder"
    and "Locate_RMT finder Resp path flags EnvInfo = (rcode, Resp1)"
    and "\<not> isPrivate xrd (NetAddr_Set xrd (getErrText xrd Resp1))
         \<or> (\<exists>client. clientAddrInfo EnvInfo = Some client \<and> \<not> isPrivate xrd client)"
  shows "Locate xrd this Resp path flags EnvInfo = Inr (rcode, Resp1)"
  using assms(3)
proof
  assume "\<not> isPrivate xrd (NetAddr_Set xrd (getErrText xrd Resp1))"
  then show ?thesis
    by (rule Locate_target_public [OF assms(1,2)])
next
  assume "\<exists>client. clientAddrInfo EnvInfo = Some client \<and> \<not> isPrivate xrd client"
  then obtain client where c: "clientAddrInfo EnvInfo = Some client" "\<not> isPrivate xrd client"
    by blast
  show ?thesis
    using c(2) Locate_finder [OF assms(1,2) c(1), of xrd] by simp
qed

text \<open>A private target and the public client \<open>198.51.100.2\<close>.\<close>

theorem Locate_public_address_witness:
  "\<not> isPrivate xrd0 ''198.51.100.2''
   \<and> Locate xrd0 (plugin0 (- 256) (located ''10.0.0.9'' 1808) False) resp0 ''/data/f'' 0
         (env0 ''198.51.100.2'')
       = Inr (- 256, located ''10.0.0.9'' 1808)"
  using Locate_public_address
    [of "plugin0 (- 256) (located ''10.0.0.9'' 1808) False"
      "finder0 (- 256) (located ''10.0.0.9'' 1808)" resp0 "''/data/f''" 0 "env0 ''198.51.100.2''"
      "- 256" "located ''10.0.0.9'' 1808" xrd0]
  by (simp add: sample_defs)

subsection \<open>C5: an old protocol version\<close>

text \<open>
  C5. When the low 16 bits of the capability in the finder's answer are below 784,
  \<^verbatim>\<open>Locate\<close> returns the finder's status and response unchanged, whatever the
  addresses, the flags and the policy are. The request carries a client address.
\<close>

theorem Locate_old_protocol:
  assumes "nativeCmsFinder this = Some finder"
    and "Locate_RMT finder Resp path flags EnvInfo = (rcode, Resp1)"
    and "clientAddrInfo EnvInfo = Some client"
    and "take_bit 16 (getUCap xrd Resp1) < 784"
  shows "Locate xrd this Resp path flags EnvInfo = Inr (rcode, Resp1)"
  using assms(4) Locate_finder [OF assms(1-3), of xrd] by (simp add: low16)

text \<open>The capability \<open>0x102BC\<close>: its low 16 bits are 700.\<close>

theorem Locate_old_protocol_witness:
  "take_bit 16 (getUCap xrd0 (located ''10.0.0.9'' 66236)) = 700
   \<and> Locate xrd0 (plugin0 (- 256) (located ''10.0.0.9'' 66236) False) resp0 ''/data/f'' 0
         (env0 ''10.0.0.5'')
       = Inr (- 256, located ''10.0.0.9'' 66236)"
  using Locate_old_protocol
    [of "plugin0 (- 256) (located ''10.0.0.9'' 66236) False"
      "finder0 (- 256) (located ''10.0.0.9'' 66236)" resp0 "''/data/f''" 0 "env0 ''10.0.0.5''"
      "- 256" "located ''10.0.0.9'' 66236" "''10.0.0.5''" xrd0]
  by (simp add: sample_defs)

subsection \<open>C6: flags out of range\<close>

text \<open>
  C6. When the flags are above \<open>0x200\<close>, \<^verbatim>\<open>Locate\<close> returns the finder's status and
  response unchanged, whatever the other conditions are. The request carries a client
  address.
\<close>

theorem Locate_flags_out_of_range:
  assumes "nativeCmsFinder this = Some finder"
    and "Locate_RMT finder Resp path flags EnvInfo = (rcode, Resp1)"
    and "clientAddrInfo EnvInfo = Some client"
    and "flags > 0x200"
  shows "Locate xrd this Resp path flags EnvInfo = Inr (rcode, Resp1)"
  using assms(4) Locate_finder [OF assms(1-3), of xrd] by simp

theorem Locate_flags_out_of_range_witness:
  "(0x400 :: int) > 0x200
   \<and> Locate xrd0 (plugin0 (- 256) (located ''10.0.0.9'' 1808) False) resp0 ''/data/f'' 0x400
         (env0 ''10.0.0.5'')
       = Inr (- 256, located ''10.0.0.9'' 1808)"
  using Locate_flags_out_of_range
    [of "plugin0 (- 256) (located ''10.0.0.9'' 1808) False"
      "finder0 (- 256) (located ''10.0.0.9'' 1808)" resp0 "''/data/f''" "0x400" "env0 ''10.0.0.5''"
      "- 256" "located ''10.0.0.9'' 1808" "''10.0.0.5''" xrd0]
  by (simp add: sample_defs)

subsection \<open>C7: the read-only policy\<close>

text \<open>
  C7. With \<^verbatim>\<open>readOnlyredirect\<close> set: when the flags are not \<^verbatim>\<open>SFS_O_RDONLY\<close>,
  \<^verbatim>\<open>Locate\<close> returns the finder's status and response unchanged; when they are, the
  policy changes nothing, \<^verbatim>\<open>Locate\<close> answers as it does with the policy off. The request
  carries a client address.
\<close>

theorem Locate_readonly_policy:
  assumes "nativeCmsFinder this = Some finder"
    and "Locate_RMT finder Resp path flags EnvInfo = (rcode, Resp1)"
    and "clientAddrInfo EnvInfo = Some client"
    and "readOnlyredirect this"
  shows "(flags \<noteq> SFS_O_RDONLY xrd \<longrightarrow>
            Locate xrd this Resp path flags EnvInfo = Inr (rcode, Resp1))
       \<and> (flags = SFS_O_RDONLY xrd \<longrightarrow>
            Locate xrd this Resp path flags EnvInfo =
            Locate xrd (this\<lparr>readOnlyredirect := False\<rparr>) Resp path flags EnvInfo)"
proof -
  have f: "nativeCmsFinder (this\<lparr>readOnlyredirect := False\<rparr>) = Some finder"
    using assms(1) by simp
  show ?thesis
    using assms(4) Locate_finder [OF assms(1-3), of xrd] Locate_finder [OF f assms(2,3), of xrd]
    by (auto simp: redirect_local_def)
qed

text \<open>An open for writing with creation (\<open>0x102\<close>), then a read-only open (\<open>0\<close>).\<close>

theorem Locate_readonly_policy_witness:
  "readOnlyredirect (plugin0 (- 256) (located ''10.0.0.9'' 1808) True)
   \<and> Locate xrd0 (plugin0 (- 256) (located ''10.0.0.9'' 1808) True) resp0 ''/data/f'' 0x102
         (env0 ''10.0.0.5'')
       = Inr (- 256, located ''10.0.0.9'' 1808)
   \<and> Locate xrd0 (plugin0 (- 256) (located ''10.0.0.9'' 1808) True) resp0 ''/data/f'' 0
         (env0 ''10.0.0.5'')
       = Inr (- 256, \<lparr>ei_code = - 1, ei_text = ''/local/data/f'', ei_ucap = 1808\<rparr>)"
  using Locate_readonly_policy
    [of "plugin0 (- 256) (located ''10.0.0.9'' 1808) True"
      "finder0 (- 256) (located ''10.0.0.9'' 1808)" resp0 "''/data/f''" "0x102" "env0 ''10.0.0.5''"
      "- 256" "located ''10.0.0.9'' 1808" "''10.0.0.5''" xrd0]
   Locate_readonly_policy
    [of "plugin0 (- 256) (located ''10.0.0.9'' 1808) True"
      "finder0 (- 256) (located ''10.0.0.9'' 1808)" resp0 "''/data/f''" "0" "env0 ''10.0.0.5''"
      "- 256" "located ''10.0.0.9'' 1808" "''10.0.0.5''" xrd0]
  by (simp add: sample_defs Locate_def redirect_local_def)

subsection \<open>C8: the order of the checks\<close>




subsection \<open>C9: no hidden state\<close>

text \<open>
  C9. The answer of \<^verbatim>\<open>Locate\<close> is a function of the request (path and flags), the
  client's address, the finder's answer, the policy and the storage system, and of nothing
  else. Two calls, on plug-in objects \<open>this\<close> and \<open>this'\<close> that may differ in everything
  but the policy and the storage system, with responses \<open>Resp\<close> and \<open>Resp'\<close> that may
  hold anything on entry, give the same answer as soon as their finders answer alike and
  the client address is the same.
\<close>

theorem Locate_deterministic:
  assumes "nativeCmsFinder this = Some finder"
    and "nativeCmsFinder this' = Some finder'"
    and "Locate_RMT finder' Resp' path flags EnvInfo' = Locate_RMT finder Resp path flags EnvInfo"
    and "clientAddrInfo EnvInfo' = clientAddrInfo EnvInfo"
    and "readOnlyredirect this' = readOnlyredirect this"
    and "theSS this' = theSS this"
  shows "Locate xrd this' Resp' path flags EnvInfo' = Locate xrd this Resp path flags EnvInfo"
proof -
  obtain rcode Resp1 where l: "Locate_RMT finder Resp path flags EnvInfo = (rcode, Resp1)"
    by (cases "Locate_RMT finder Resp path flags EnvInfo")
  have l': "Locate_RMT finder' Resp' path flags EnvInfo' = (rcode, Resp1)"
    using assms(3) l by simp
  have r: "redirect_local xrd this' path Resp1 = redirect_local xrd this path Resp1"
    using assms(6) by (simp add: redirect_local_def)
  show ?thesis
    using assms(1,2,4,5) l l' r by (auto simp: Locate_def Let_def split: option.splits)
qed

text \<open>The same request twice, the second time with a response left over from another call.\<close>

theorem Locate_deterministic_witness:
  "Locate xrd0 (plugin0 (- 256) (located ''10.0.0.9'' 1808) False)
      \<lparr>ei_code = 7, ei_text = ''stale'', ei_ucap = 0\<rparr> ''/data/f'' 0 (env0 ''10.0.0.5'')
   = Locate xrd0 (plugin0 (- 256) (located ''10.0.0.9'' 1808) False) resp0 ''/data/f'' 0
      (env0 ''10.0.0.5'')
   \<and> Locate xrd0 (plugin0 (- 256) (located ''10.0.0.9'' 1808) False) resp0 ''/data/f'' 0
      (env0 ''10.0.0.5'')
   = Inr (- 256, \<lparr>ei_code = - 1, ei_text = ''/local/data/f'', ei_ucap = 1808\<rparr>)"
  using Locate_deterministic
    [of "plugin0 (- 256) (located ''10.0.0.9'' 1808) False"
      "finder0 (- 256) (located ''10.0.0.9'' 1808)"
      "plugin0 (- 256) (located ''10.0.0.9'' 1808) False"
      "finder0 (- 256) (located ''10.0.0.9'' 1808)"
      "\<lparr>ei_code = 7, ei_text = ''stale'', ei_ucap = 0\<rparr>" "''/data/f''" 0 "env0 ''10.0.0.5''"
      resp0 "env0 ''10.0.0.5''" xrd0]
  by (simp add: sample_defs Locate_def redirect_local_def)

subsection \<open>C10: no finder\<close>

text \<open>
  C10. Without a finder, \<^verbatim>\<open>Locate\<close> returns 0 and the response it was given, whatever
  the framework's operations, the flags, the environment and the storage system are,
  null pointers included: no check is made and nothing is translated. \<^verbatim>\<open>Space\<close> does
  the same.
\<close>

theorem Locate_Space_without_finder:
  assumes "nativeCmsFinder this = None"
  shows "Locate xrd this Resp path flags EnvInfo = Inr (0, Resp)
       \<and> Space this Resp path EnvInfo = (0, Resp)"
  using assms by (simp add: Locate_def Space_def)

text \<open>A plug-in with neither finder nor storage system, and a request with no environment.\<close>

theorem Locate_Space_without_finder_witness:
  "Locate xrd0 \<lparr>nativeCmsFinder = None, theSS = None, readOnlyredirect = True\<rparr>
      (located ''10.0.0.9'' 700) ''/data/f'' 0x400 None
     = Inr (0, located ''10.0.0.9'' 700)
   \<and> Space \<lparr>nativeCmsFinder = None, theSS = None, readOnlyredirect = True\<rparr>
      (located ''10.0.0.9'' 700) ''/data/f'' (None :: string XrdOucEnv option)
     = (0, located ''10.0.0.9'' 700)"
  using Locate_Space_without_finder
    [of "\<lparr>nativeCmsFinder = None, theSS = None, readOnlyredirect = True\<rparr>"
      xrd0 "located ''10.0.0.9'' 700" "''/data/f''" "0x400" None]
  by simp

end
